theory Spec2Isabelle
  imports Main "HOL-Library.Log_Nat" "HOL-Library.Multiset"
begin

section \<open>Document storage and duplicate detection (modules/database.py)\<close>

text \<open>
  The module keeps document records in a remote table \<open>documents\<close> reached through a
  lazily created client handle, and screens new texts for near duplicates by word
  overlap.  The remote table, the clock, the client constructor and the \<open>json\<close>
  library are outside the module; they appear below as explicit state
  (\<open>world\<close>), as per-call inputs (\<open>env\<close>) and as a parameter (\<open>codec\<close>).
  The lines \<open>save_document\<close> and \<open>delete_document\<close> print are part of the model: \<open>print\<close>
  raises when the console does not take a line, and where that exception goes
  depends on where the \<open>print\<close> stands.  The other lines of the module (those of
  \<open>get_supabase_client\<close> and of the handlers of the three reading operations) are not.
\<close>

subsection \<open>Python strings\<close>

text \<open>
  A Python \<open>str\<close> is a sequence of code points.  Texts are modelled as \<open>string\<close>, each
  \<open>char\<close> standing for one code point below 256.  On these, \<open>str.split()\<close> separates at
  the code points 9-13, 28-32, 133 and 160, and \<open>str.lower()\<close> moves A-Z and the
  upper-case letters 192-222 (215, the multiplication sign, apart) up by 32.
\<close>

definition isspace :: "char \<Rightarrow> bool" where
  "isspace c =
     (let n = (of_char c :: nat)
      in (9 \<le> n \<and> n \<le> 13) \<or> (28 \<le> n \<and> n \<le> 32) \<or> n = 133 \<or> n = 160)"

definition lower_char :: "char \<Rightarrow> char" where
  "lower_char c =
     (let n = (of_char c :: nat)
      in if (65 \<le> n \<and> n \<le> 90) \<or> (192 \<le> n \<and> n \<le> 222 \<and> n \<noteq> 215)
         then char_of (n + 32) else c)"

definition lower :: "string \<Rightarrow> string" where
  "lower s = map lower_char s"

text \<open>\<open>split_from w s\<close>: the words of \<open>s\<close>, given that \<open>w\<close> is the word read so far.\<close>

fun split_from :: "string \<Rightarrow> string \<Rightarrow> string list" where
  "split_from w [] = (if w = [] then [] else [w])"
| "split_from w (c # cs) =
     (if isspace c
      then (if w = [] then split_from [] cs else w # split_from [] cs)
      else split_from (w @ [c]) cs)"

definition py_split :: "string \<Rightarrow> string list" where
  "py_split s = split_from [] s"

subsection \<open>\<open>Path(filename).suffix\<close>\<close>

text \<open>
  POSIX flavour of \<open>pathlib\<close>: the name is the last path component that is neither
  empty nor a single dot; the suffix starts at the last dot of the name, unless that
  dot is the first or the last character of the name.
\<close>

fun components_from :: "string \<Rightarrow> string \<Rightarrow> string list" where
  "components_from w [] = [w]"
| "components_from w (c # cs) =
     (if c = CHR ''/'' then w # components_from [] cs else components_from (w @ [c]) cs)"

definition path_name :: "string \<Rightarrow> string" where
  "path_name p =
     (case rev (filter (\<lambda>x. x \<noteq> [] \<and> x \<noteq> ''.'') (components_from [] p)) of
        [] \<Rightarrow> []
      | x # _ \<Rightarrow> x)"

definition suffix :: "string \<Rightarrow> string" where
  "suffix p =
     (let name = path_name p
      in if CHR ''.'' \<notin> set name then []
         else let ext = length (takeWhile (\<lambda>c. c \<noteq> CHR ''.'') (rev name));
                  i = length name - ext - 1
              in if 0 < i \<and> 0 < ext then drop i name else [])"

subsection \<open>Python floats\<close>










subsection \<open>The \<open>json\<close> library\<close>

text \<open>
  Python values: those that \<open>json.loads\<close> returns, and \<open>PyObject\<close> for any other object
  a caller may put into a map (a \<open>datetime\<close>, a set), named by its \<open>repr\<close>, which
  \<open>json.dumps\<close> refuses.  A dict is a list of key-value pairs in insertion order.
  \<open>json.dumps\<close> and \<open>json.loads\<close> are library functions: the operations take them as a
  \<open>codec\<close>, \<open>None\<close> standing for the exception either one raises (a value that is not
  serialisable, a text that is not JSON).
\<close>

datatype json =
    JNull | JBool bool | JInt int | JFloat rat | JStr string
  | JArr "json list" | JObj "(string \<times> json) list" | PyObject string

type_synonym dict = "(string \<times> json) list"

record codec =
  dumps :: "json \<Rightarrow> string option"
  loads :: "string \<Rightarrow> json option"

text \<open>\<open>summary or {}\<close>: \<open>None\<close> and the empty dict are both falsy.\<close>

definition or_empty :: "dict option \<Rightarrow> json" where
  "or_empty d = (case d of None \<Rightarrow> JObj [] | Some kv \<Rightarrow> if kv = [] then JObj [] else JObj kv)"

subsection \<open>The remote table and the client handle\<close>

text \<open>
  A row of \<open>documents\<close>.  \<open>row_id\<close> is the column \<open>id\<close>, the primary key; the columns
  the readers test for falsiness before use may hold SQL \<open>NULL\<close> (\<open>None\<close>).  The type
  \<open>'t\<close> of \<open>upload_date\<close> is whatever the store orders timestamps by.
\<close>

record 't row =
  row_id :: string
  filename :: "string option"
  file_path :: string
  upload_date :: 't
  file_type :: string
  file_size :: int
  ocr_text :: "string option"
  summary_json :: "string option"
  metadata_json :: "string option"

datatype client = Client

record 't world =
  SUPABASE_URL :: string
  SUPABASE_KEY :: string
  supabase :: "client option"
  documents :: "'t row list"

datatype exn = APIError | TypeError | JSONDecodeError | PrintError

text \<open>
  The lines of \<open>save_document\<close> and \<open>delete_document\<close>, each with what it interpolates:
  \<^item> \<open>NotAvailable d\<close>: warning sign, "Supabase not available, document d not saved";
  \<^item> \<open>Saved d\<close>: check mark, "Document d saved to Supabase";
  \<^item> \<open>SaveFailed d ex\<close>: warning sign, "Failed to save document d: ex";
  \<^item> \<open>Deleted d\<close>: check mark, "Document d deleted from Supabase";
  \<^item> \<open>DeleteFailed d ex\<close>: warning sign, "Failed to delete document d: ex".
\<close>

datatype line =
    NotAvailable string | Saved string | SaveFailed string exn
  | Deleted string | DeleteFailed string exn

text \<open>
  What one call meets: whether \<open>create_client\<close> returns a handle or raises, whether the
  request sent by \<open>execute()\<close> succeeds or raises, \<open>datetime.now().isoformat()\<close>, and
  which lines the console takes (\<open>print\<close> of any other line raises, as it does when
  the encoding of \<open>stdout\<close> lacks a character of the line or the stream is closed).
\<close>

record 't env =
  create_client :: "client option"
  execute_ok :: bool
  now :: 't
  console :: "line \<Rightarrow> bool"

definition get_supabase_client :: "'t env \<Rightarrow> 't world \<Rightarrow> 't world \<times> client option" where
  "get_supabase_client e w =
     (let w' = (if supabase w = None \<and> SUPABASE_URL w \<noteq> [] \<and> SUPABASE_KEY w \<noteq> []
                then (case create_client e of
                        Some c \<Rightarrow> w\<lparr>supabase := Some c\<rparr>
                      | None \<Rightarrow> w)
                else w)
      in (w', supabase w'))"

text \<open>
  The requests the module sends.  \<open>upsert\<close> replaces the row with the same primary key
  or inserts; a request that fails leaves the table as it was.
\<close>

fun upsert :: "'t row \<Rightarrow> 't row list \<Rightarrow> 't row list" where
  "upsert r [] = [r]"
| "upsert r (x # xs) = (if row_id x = row_id r then r # xs else x # upsert r xs)"


definition select_eq_id :: "string \<Rightarrow> 't row list \<Rightarrow> 't row list" where
  "select_eq_id d rows = filter (\<lambda>r. row_id r = d) rows"

definition delete_eq_id :: "string \<Rightarrow> 't row list \<Rightarrow> 't row list" where
  "delete_eq_id d rows = filter (\<lambda>r. row_id r \<noteq> d) rows"

subsection \<open>\<open>save_document\<close>\<close>

text \<open>
  The \<open>try\<close> block: the table it leaves and what it returns or raises.  The line after
  the request is printed inside the block, when the row is already stored.
\<close>

definition save_body ::
  "codec \<Rightarrow> 't env \<Rightarrow> 't world \<Rightarrow> string \<Rightarrow> string \<Rightarrow> string \<Rightarrow> string \<Rightarrow> string option \<Rightarrow> int
     \<Rightarrow> dict option \<Rightarrow> dict option \<Rightarrow> 't world \<times> (exn + bool)" where
  "save_body c e w doc_id fname fpath text ftype fsize summary metadata =
     (let ft = (case ftype of
                  None \<Rightarrow> lower (suffix fname)
                | Some t \<Rightarrow> if t = [] then lower (suffix fname) else t)
      in case dumps c (or_empty summary) of
           None \<Rightarrow> (w, Inl TypeError)
         | Some sj \<Rightarrow>
            (case dumps c (or_empty metadata) of
               None \<Rightarrow> (w, Inl TypeError)
             | Some mj \<Rightarrow>
                (let data = \<lparr>row_id = doc_id, filename = Some fname, file_path = fpath,
                              upload_date = now e, file_type = ft, file_size = fsize,
                              ocr_text = Some text, summary_json = Some sj,
                              metadata_json = Some mj\<rparr>
                 in if execute_ok e
                    then (let w' = w\<lparr>documents := upsert data (documents w)\<rparr>
                          in if console e (Saved doc_id) then (w', Inr True)
                             else (w', Inl PrintError))
                    else (w, Inl APIError))))"

text \<open>
  The line on the unavailable path is printed outside the \<open>try\<close>; the line of the
  handler is printed in the handler.  An exception of either reaches the caller.
\<close>

definition save_document ::
  "codec \<Rightarrow> 't env \<Rightarrow> 't world \<Rightarrow> string \<Rightarrow> string \<Rightarrow> string \<Rightarrow> string \<Rightarrow> string option \<Rightarrow> int
     \<Rightarrow> dict option \<Rightarrow> dict option \<Rightarrow> 't world \<times> (exn + bool)" where
  "save_document c e w doc_id fname fpath text ftype fsize summary metadata =
     (case get_supabase_client e w of
        (w1, None) \<Rightarrow>
          if console e (NotAvailable doc_id) then (w1, Inr False) else (w1, Inl PrintError)
      | (w1, Some cl) \<Rightarrow>
         (case save_body c e w1 doc_id fname fpath text ftype fsize summary metadata of
            (w2, Inl ex) \<Rightarrow>
              if console e (SaveFailed doc_id ex) then (w2, Inr False)
              else (w2, Inl PrintError)
          | (w2, Inr b) \<Rightarrow> (w2, Inr b)))"

subsection \<open>\<open>get_all_documents_from_db\<close>\<close>


definition word_count_of :: "string option \<Rightarrow> nat" where
  "word_count_of t =
     (case t of None \<Rightarrow> 0 | Some s \<Rightarrow> if s = [] then 0 else length (py_split s))"

definition title_of :: "'t row \<Rightarrow> string" where
  "title_of r =
     (case filename r of None \<Rightarrow> row_id r | Some f \<Rightarrow> if f = [] then row_id r else f)"




subsection \<open>\<open>get_document_by_id\<close>\<close>

text \<open>
  The dict returned for the row found (a key shared with the row carries the prefix
  \<open>doc_\<close>).  \<open>load_json\<close> is the expression
  \<open>json.loads(row.get(k, '{}')) if row.get(k) else {}\<close>.
\<close>

record 't document =
  doc_id :: string
  doc_filename :: "string option"
  doc_file_path :: string
  doc_upload_date :: 't
  doc_file_type :: string
  doc_file_size :: int
  full_text :: "string option"
  word_count :: nat
  title :: string
  summary :: json
  metadata :: json

definition load_json :: "codec \<Rightarrow> string option \<Rightarrow> exn + json" where
  "load_json c col =
     (case col of
        None \<Rightarrow> Inr (JObj [])
      | Some s \<Rightarrow>
         if s = [] then Inr (JObj [])
         else (case loads c s of None \<Rightarrow> Inl JSONDecodeError | Some v \<Rightarrow> Inr v))"

definition get_by_id_body ::
  "codec \<Rightarrow> 't env \<Rightarrow> 't world \<Rightarrow> string \<Rightarrow> exn + 't document option" where
  "get_by_id_body c e w d =
     (if \<not> execute_ok e then Inl APIError
      else case select_eq_id d (documents w) of
             [] \<Rightarrow> Inr None
           | r # _ \<Rightarrow>
              (case load_json c (summary_json r) of
                 Inl ex \<Rightarrow> Inl ex
               | Inr sm \<Rightarrow>
                  (case load_json c (metadata_json r) of
                     Inl ex \<Rightarrow> Inl ex
                   | Inr md \<Rightarrow>
                      Inr (Some \<lparr>doc_id = row_id r, doc_filename = filename r,
                                 doc_file_path = file_path r,
                                 doc_upload_date = upload_date r,
                                 doc_file_type = file_type r,
                                 doc_file_size = file_size r,
                                 full_text = ocr_text r,
                                 word_count = word_count_of (ocr_text r),
                                 title = title_of r,
                                 summary = sm, metadata = md\<rparr>))))"

definition get_document_by_id ::
  "codec \<Rightarrow> 't env \<Rightarrow> 't world \<Rightarrow> string \<Rightarrow> 't world \<times> (exn + 't document option)" where
  "get_document_by_id c e w d =
     (case get_supabase_client e w of
        (w1, None) \<Rightarrow> (w1, Inr None)
      | (w1, Some cl) \<Rightarrow>
         (case get_by_id_body c e w1 d of
            Inl ex \<Rightarrow> (w1, Inr None)
          | Inr r \<Rightarrow> (w1, Inr r)))"

subsection \<open>\<open>delete_document\<close>\<close>

definition delete_body :: "'t env \<Rightarrow> 't world \<Rightarrow> string \<Rightarrow> 't world \<times> (exn + bool)" where
  "delete_body e w d =
     (if execute_ok e
      then (let w' = w\<lparr>documents := delete_eq_id d (documents w)\<rparr>
            in if console e (Deleted d) then (w', Inr True) else (w', Inl PrintError))
      else (w, Inl APIError))"

definition delete_document :: "'t env \<Rightarrow> 't world \<Rightarrow> string \<Rightarrow> 't world \<times> (exn + bool)" where
  "delete_document e w d =
     (case get_supabase_client e w of
        (w1, None) \<Rightarrow> (w1, Inr False)
      | (w1, Some cl) \<Rightarrow>
         (case delete_body e w1 d of
            (w2, Inl ex) \<Rightarrow>
              if console e (DeleteFailed d ex) then (w2, Inr False)
              else (w2, Inl PrintError)
          | (w2, Inr b) \<Rightarrow> (w2, Inr b)))"

subsection \<open>\<open>find_similar_documents\<close>\<close>






subsection \<open>Notions used in the statements\<close>

text \<open>The store is available when \<open>get_supabase_client\<close> hands out a handle.\<close>

definition available :: "'t env \<Rightarrow> 't world \<Rightarrow> bool" where
  "available e w = (snd (get_supabase_client e w) \<noteq> None)"

text \<open>The console takes the lines \<open>save_document\<close> may print for an identifier.\<close>

definition prints_for :: "'t env \<Rightarrow> string \<Rightarrow> bool" where
  "prints_for e d =
     (console e (NotAvailable d) \<and> console e (Saved d)
      \<and> console e (SaveFailed d TypeError) \<and> console e (SaveFailed d APIError))"

text \<open>The record a reader finds under an identifier: the first row the filter returns.\<close>

definition first_row :: "string \<Rightarrow> 't row list \<Rightarrow> 't row option" where
  "first_row d rows = (case select_eq_id d rows of [] \<Rightarrow> None | r # _ \<Rightarrow> Some r)"

subsection \<open>Sample data\<close>

text \<open>
  A codec that knows two values, with the texts \<open>json.dumps\<close> writes for them, and
  raises on everything else.
\<close>

definition table_codec :: codec where
  "table_codec =
     \<lparr>dumps = (\<lambda>v. if v = JObj [] then Some ''{}''
                  else if v = JObj [(''pages'', JInt 2)]
                  then Some (''{'' @ [CHR 0x22] @ ''pages'' @ [CHR 0x22] @ '': 2}'')
                  else None),
      loads = (\<lambda>s. if s = ''{}'' then Some (JObj [])
                  else if s = ''{'' @ [CHR 0x22] @ ''pages'' @ [CHR 0x22] @ '': 2}''
                  then Some (JObj [(''pages'', JInt 2)])
                  else None)\<rparr>"

definition online_env :: "nat \<Rightarrow> nat env" where
  "online_env t = \<lparr>create_client = Some Client, execute_ok = True, now = t,
                   console = (\<lambda>l. True)\<rparr>"

text \<open>
  A console that takes no line: \<open>stdout\<close> in an encoding that has neither the check
  mark nor the warning sign (ASCII, cp1252), or closed.
\<close>

definition mute_env :: "bool \<Rightarrow> nat env" where
  "mute_env x = \<lparr>create_client = Some Client, execute_ok = x, now = 7,
                 console = (\<lambda>l. False)\<rparr>"

definition empty_world :: "nat world" where
  "empty_world = \<lparr>SUPABASE_URL = ''https://db.example'', SUPABASE_KEY = ''secret'',
                   supabase = None, documents = []\<rparr>"

definition offline_world :: "nat world" where
  "offline_world = \<lparr>SUPABASE_URL = [], SUPABASE_KEY = [], supabase = None, documents = []\<rparr>"

definition memo_row :: "nat row" where
  "memo_row = \<lparr>row_id = ''d7'', filename = Some ''memo.txt'', file_path = ''/up/memo.txt'',
                upload_date = 3, file_type = ''.txt'', file_size = 9,
                ocr_text = Some ''short memo'', summary_json = Some ''{}'',
                metadata_json = Some ''{}''\<rparr>"

definition memo_world :: "nat world" where
  "memo_world = empty_world\<lparr>documents := [memo_row]\<rparr>"

text \<open>
  What the statements ask of the \<open>json\<close> library: \<open>round_trips c v\<close> when reading what
  was written for \<open>v\<close> gives \<open>v\<close> again, \<open>loadable c v\<close> when it gives some value.
\<close>

definition round_trips :: "codec \<Rightarrow> json \<Rightarrow> bool" where
  "round_trips c v = (case dumps c v of None \<Rightarrow> False | Some s \<Rightarrow> load_json c (Some s) = Inr v)"

definition loadable :: "codec \<Rightarrow> json \<Rightarrow> bool" where
  "loadable c v =
     (case dumps c v of
        None \<Rightarrow> False
      | Some s \<Rightarrow> (case load_json c (Some s) of Inl ex \<Rightarrow> False | Inr v' \<Rightarrow> True))"

text \<open>The table after a first document was saved.\<close>

definition pages_world :: "nat world" where
  "pages_world =
     empty_world\<lparr>supabase := Some Client,
       documents := [\<lparr>row_id = ''d1'', filename = Some ''notes.txt'',
         file_path = ''/up/notes.txt'', upload_date = 5, file_type = ''.txt'', file_size = 16,
         ocr_text = Some ''alpha beta gamma'',
         summary_json = Some (''{'' @ [CHR 0x22] @ ''pages'' @ [CHR 0x22] @ '': 2}''),
         metadata_json = Some ''{}''\<rparr>]\<rparr>"

text \<open>The table's primary key: no two rows share an identifier.\<close>

definition primary_key :: "'t row list \<Rightarrow> bool" where
  "primary_key rows = distinct (map row_id rows)"

text \<open>The table after the same document was saved a second time, at time 9.\<close>

definition pages_world_again :: "nat world" where
  "pages_world_again =
     empty_world\<lparr>supabase := Some Client,
       documents := [\<lparr>row_id = ''d1'', filename = Some ''notes.txt'',
         file_path = ''/up/notes.txt'', upload_date = 9, file_type = ''.txt'', file_size = 16,
         ocr_text = Some ''alpha beta gamma'',
         summary_json = Some (''{'' @ [CHR 0x22] @ ''pages'' @ [CHR 0x22] @ '': 2}''),
         metadata_json = Some ''{}''\<rparr>]\<rparr>"













text \<open>The table after \<open>Scan.PDF\<close> was saved, stored with file type \<open>t\<close>.\<close>

definition scan_world :: "string \<Rightarrow> nat world" where
  "scan_world t =
     empty_world\<lparr>supabase := Some Client,
       documents := [\<lparr>row_id = ''d1'', filename = Some ''Scan.PDF'',
         file_path = ''/up/Scan.PDF'', upload_date = 5, file_type = t, file_size = 10,
         ocr_text = Some ''alpha beta'', summary_json = Some ''{}'',
         metadata_json = Some ''{}''\<rparr>]\<rparr>"

section \<open>Properties\<close>

subsection \<open>The client handle\<close>

lemma get_client_cases:
  "get_supabase_client e w = (w1, r) \<Longrightarrow>
     documents w1 = documents w \<and> (r \<noteq> None) = available e w \<and> supabase w1 = r"
  by (auto simp: available_def get_supabase_client_def Let_def split: option.splits if_splits)

lemma available_memo: "available (online_env t) memo_world"
  by (simp add: available_def get_supabase_client_def online_env_def empty_world_def
      memo_world_def)

lemma not_available_offline: "\<not> available e offline_world"
  by (simp add: available_def get_supabase_client_def offline_world_def)

subsection \<open>The requests\<close>

lemma select_upsert_same:
  "select_eq_id (row_id r) (upsert r rows) = r # tl (select_eq_id (row_id r) rows)"
  by (induction rows) (auto simp: select_eq_id_def)

lemma select_upsert_other:
  "d \<noteq> row_id r \<Longrightarrow> select_eq_id d (upsert r rows) = select_eq_id d rows"
  by (induction rows) (auto simp: select_eq_id_def)

lemma ids_upsert: "set (map row_id (upsert r rows)) = insert (row_id r) (set (map row_id rows))"
  by (induction rows) auto

lemma distinct_upsert:
  "distinct (map row_id rows) \<Longrightarrow> distinct (map row_id (upsert r rows))"
proof (induction rows)
  case Nil
  then show ?case by simp
next
  case (Cons x xs)
  have "row_id x \<noteq> row_id r \<Longrightarrow> row_id x \<notin> set (map row_id (upsert r xs))"
    using Cons.prems by (simp add: ids_upsert del: set_map)
  with Cons show ?case by auto
qed

lemma select_distinct:
  "distinct (map row_id rows) \<Longrightarrow> length (select_eq_id d rows) \<le> 1"
  by (induction rows) (auto simp: select_eq_id_def filter_empty_conv image_iff)

lemma select_upsert_distinct:
  assumes "distinct (map row_id rows)"
  shows "select_eq_id (row_id r) (upsert r rows) = [r]"
proof -
  have "length (select_eq_id (row_id r) rows) \<le> 1"
    using assms by (rule select_distinct)
  then have "tl (select_eq_id (row_id r) rows) = []"
    by (cases "select_eq_id (row_id r) rows") auto
  then show ?thesis by (simp add: select_upsert_same)
qed

lemma length_upsert:
  "length (upsert r rows) = (if row_id r \<in> row_id ` set rows then length rows else Suc (length rows))"
  by (induction rows) auto

lemma first_row_upsert: "first_row (row_id r) (upsert r rows) = Some r"
  by (simp add: first_row_def select_upsert_same)

subsection \<open>What a call of \<open>save_document\<close> does\<close>

lemma save_document_cases:
  assumes "save_document c e w d fn fp tx ft fs sm md = (w', Inr True)"
  shows "available e w \<and> execute_ok e \<and> supabase w' \<noteq> None \<and> console e (Saved d)
         \<and> (\<exists>sj mj. dumps c (or_empty sm) = Some sj \<and> dumps c (or_empty md) = Some mj
              \<and> documents w' =
                  upsert \<lparr>row_id = d, filename = Some fn, file_path = fp,
                          upload_date = now e,
                          file_type = (case ft of None \<Rightarrow> lower (suffix fn)
                                       | Some t \<Rightarrow> if t = [] then lower (suffix fn) else t),
                          file_size = fs, ocr_text = Some tx, summary_json = Some sj,
                          metadata_json = Some mj\<rparr> (documents w))"
proof -
  obtain w1 r where g: "get_supabase_client e w = (w1, r)" by (cases "get_supabase_client e w")
  note h = get_client_cases [OF g]
  show ?thesis
  proof (cases r)
    case None
    with assms g h show ?thesis by (auto simp: save_document_def split: if_splits)
  next
    case (Some cl)
    with assms g h show ?thesis
      by (auto simp: save_document_def save_body_def Let_def
          split: option.splits if_splits prod.splits sum.splits)
  qed
qed

lemma save_document_printed:
  assumes "prints_for e d"
  shows "snd (save_document c e w d fn fp tx ft fs sm md)
         = Inr (available e w \<and> dumps c (or_empty sm) \<noteq> None \<and> dumps c (or_empty md) \<noteq> None
                \<and> execute_ok e)"
proof -
  obtain w1 r where g: "get_supabase_client e w = (w1, r)" by (cases "get_supabase_client e w")
  note h = get_client_cases [OF g]
  show ?thesis
  proof (cases r)
    case None
    with assms g h show ?thesis by (auto simp: save_document_def prints_for_def)
  next
    case (Some cl)
    with assms g h show ?thesis
      by (auto simp: save_document_def save_body_def prints_for_def Let_def
          split: option.splits)
  qed
qed

subsection \<open>Degradation\<close>

text \<open>
  Claim C3.  The operations are to return \<open>False\<close>, the empty list or \<open>None\<close> and never
  raise.  \<open>save_document\<close> does raise: on the unavailable path its line is printed
  outside any \<open>try\<close>, and when the request fails its line is printed in the \<open>except\<close>
  handler, so with a console that does not take the line the exception of \<open>print\<close>
  reaches the caller in both cases.
\<close>

theorem save_document_print_raises:
  "\<not> available (mute_env True) offline_world
   \<and> snd (save_document table_codec (mute_env True) offline_world ''d1'' ''a.txt'' ''/up/a.txt''
            ''alpha beta'' None 10 None None) = Inl PrintError
   \<and> available (mute_env False) memo_world
   \<and> \<not> execute_ok (mute_env False)
   \<and> snd (save_document table_codec (mute_env False) memo_world ''d1'' ''a.txt'' ''/up/a.txt''
            ''alpha beta'' None 10 None None) = Inl PrintError"
  by code_simp

subsection \<open>\<open>delete_document\<close>\<close>

text \<open>
  When the console takes the line printed after the request, \<open>delete_document\<close> returns
  \<open>True\<close> on an available store whose request succeeds, also when no row has the
  identifier, and then the table is unchanged; and it returns \<open>False\<close> only when the
  store is unavailable or the request fails.
\<close>

lemma delete_document_printed:
  assumes "console e (Deleted d)"
  shows "(available e w \<and> execute_ok e \<longrightarrow> snd (delete_document e w d) = Inr True)
   \<and> (available e w \<and> execute_ok e \<and> d \<notin> row_id ` set (documents w)
        \<longrightarrow> documents (fst (delete_document e w d)) = documents w)
   \<and> (snd (delete_document e w d) = Inr False \<longrightarrow> \<not> available e w \<or> \<not> execute_ok e)"
proof -
  obtain w1 r where g: "get_supabase_client e w = (w1, r)" by (cases "get_supabase_client e w")
  note h = get_client_cases [OF g]
  have keep: "d \<notin> row_id ` set (documents w) \<Longrightarrow> delete_eq_id d (documents w) = documents w"
    by (auto simp: delete_eq_id_def filter_id_conv)
  show ?thesis
    using h keep assms
    by (cases r) (auto simp: delete_document_def delete_body_def g Let_def)
qed

text \<open>
  Claim C7.  \<open>delete_document\<close> is to return \<open>True\<close> on an available store whose request
  succeeds, also for an identifier no row has.  The line after the request is
  printed inside the \<open>try\<close> and the line of the handler in the handler: with a console
  that takes neither, the call raises, the store being available, the request
  having succeeded and the table being as it was.
\<close>

theorem delete_document_print_raises:
  "available (mute_env True) memo_world
   \<and> execute_ok (mute_env True)
   \<and> ''missing-id'' \<notin> row_id ` set (documents memo_world)
   \<and> delete_document (mute_env True) memo_world ''missing-id''
       = (memo_world\<lparr>supabase := Some Client\<rparr>, Inl PrintError)"
  by code_simp

subsection \<open>\<open>save_document\<close> and the identifier\<close>

text \<open>
  Claim C10, as the code has it.  \<open>save_document\<close> does not validate the identifier.
  For an identifier whose lines the console takes, it returns \<open>True\<close> exactly when the
  store is available, the two maps serialise and the request succeeds; so for two
  such identifiers the result is the same.  The empty identifier is sent like any
  other: the call returns \<open>True\<close> and the table then holds the row under it.
\<close>

theorem save_document_any_id:
  "(prints_for e d \<longrightarrow>
      snd (save_document c e w d fn fp tx ft fs sm md)
        = Inr (available e w \<and> dumps c (or_empty sm) \<noteq> None
               \<and> dumps c (or_empty md) \<noteq> None \<and> execute_ok e))
   \<and> (prints_for e d \<and> prints_for e d' \<longrightarrow>
        snd (save_document c e w d fn fp tx ft fs sm md)
          = snd (save_document c e w d' fn fp tx ft fs sm md))
   \<and> (prints_for e [] \<and> available e w \<and> dumps c (or_empty sm) \<noteq> None
        \<and> dumps c (or_empty md) \<noteq> None \<and> execute_ok e \<longrightarrow>
         snd (save_document c e w [] fn fp tx ft fs sm md) = Inr True
       \<and> (\<exists>r. first_row [] (documents (fst (save_document c e w [] fn fp tx ft fs sm md)))
                = Some r
              \<and> row_id r = [] \<and> ocr_text r = Some tx))"
proof -
  note res = save_document_printed [of e _ c w fn fp tx ft fs sm md]
  have fwd: "\<exists>r. first_row [] (documents (fst (save_document c e w [] fn fp tx ft fs sm md)))
                = Some r \<and> row_id r = [] \<and> ocr_text r = Some tx"
    if ok: "snd (save_document c e w [] fn fp tx ft fs sm md) = Inr True"
  proof -
    obtain w' where s: "save_document c e w [] fn fp tx ft fs sm md = (w', Inr True)"
      using ok by (cases "save_document c e w [] fn fp tx ft fs sm md") auto
    from save_document_cases [OF s] obtain r where
      "documents w' = upsert r (documents w)" "row_id r = []" "ocr_text r = Some tx"
      by auto
    then show ?thesis
      using first_row_upsert [of r "documents w"] by (simp add: s)
  qed
  show ?thesis using res fwd by simp
qed

theorem save_document_any_id_witness:
  "prints_for (online_env 5) []
   \<and> available (online_env 5) memo_world
   \<and> dumps table_codec (or_empty None) \<noteq> None \<and> execute_ok (online_env 5)
   \<and> snd (save_document table_codec (online_env 5) memo_world [] ''a.txt'' ''/up/a.txt''
            ''alpha beta'' None 10 None None) = Inr True
   \<and> (\<exists>r. first_row [] (documents (fst (save_document table_codec (online_env 5) memo_world []
              ''a.txt'' ''/up/a.txt'' ''alpha beta'' None 10 None None))) = Some r
          \<and> row_id r = [] \<and> ocr_text r = Some ''alpha beta'')"
proof -
  have p: "prints_for (online_env 5) []"
    by (simp add: prints_for_def online_env_def)
  have a: "available (online_env 5) memo_world"
    by (rule available_memo)
  have x: "execute_ok (online_env 5)"
    by (simp add: online_env_def)
  have j: "dumps table_codec (or_empty None) \<noteq> None"
    by (simp add: table_codec_def or_empty_def)
  show ?thesis
    using p a x j
      save_document_any_id [of "online_env 5" "[]" table_codec memo_world "''a.txt''"
        "''/up/a.txt''" "''alpha beta''" None 10 None None "[]"]
    by blast
qed

text \<open>
  The result does not depend on availability and the request alone: on an available
  store whose request would succeed, and with a console that takes every line, a
  map that \<open>json.dumps\<close> refuses makes the call return \<open>False\<close>.
\<close>

theorem save_document_unserialisable_counterexample:
  "available (online_env 5) memo_world
   \<and> execute_ok (online_env 5)
   \<and> snd (save_document table_codec (online_env 5) memo_world ''d1'' ''a.txt'' ''/up/a.txt''
            ''alpha beta'' None 10 None None) = Inr True
   \<and> snd (save_document table_codec (online_env 5) memo_world ''d1'' ''a.txt'' ''/up/a.txt''
            ''alpha beta'' None 10
            (Some [(''scanned_at'', PyObject ''datetime.datetime(2024, 1, 1, 0, 0)'')]) None)
       = Inr False"
  by code_simp

subsection \<open>The stored file type\<close>

text \<open>
  Claim C8, as the code has it.  After a successful \<open>save_document\<close> the stored
  \<open>file_type\<close> is the lower-cased suffix of the filename when \<open>file_type\<close> is absent or
  empty, and the given \<open>file_type\<close> when it is not empty.
\<close>

theorem file_type_stored:
  assumes "save_document c e w d fn fp tx ft fs sm md = (w1, Inr True)"
  shows "\<exists>r. first_row d (documents w1) = Some r
           \<and> (ft = None \<or> ft = Some [] \<longrightarrow> file_type r = lower (suffix fn))
           \<and> (\<forall>t. ft = Some t \<and> t \<noteq> [] \<longrightarrow> file_type r = t)"
proof -
  from save_document_cases [OF assms] obtain r where
    r: "documents w1 = upsert r (documents w)" "row_id r = d"
      "file_type r = (case ft of None \<Rightarrow> lower (suffix fn)
                      | Some t \<Rightarrow> if t = [] then lower (suffix fn) else t)"
    by auto
  have "first_row d (documents w1) = Some r"
    using r first_row_upsert [of r "documents w"] by simp
  with r(3) show ?thesis by auto
qed

theorem file_type_stored_witness:
  "save_document table_codec (online_env 5) empty_world ''d1'' ''Scan.PDF'' ''/up/Scan.PDF''
     ''alpha beta'' None 10 None None = (scan_world ''.pdf'', Inr True)
   \<and> (\<exists>r. first_row ''d1'' (documents (scan_world ''.pdf'')) = Some r
          \<and> file_type r = lower (suffix ''Scan.PDF''))
   \<and> lower (suffix ''Scan.PDF'') = ''.pdf''
   \<and> save_document table_codec (online_env 5) empty_world ''d1'' ''Scan.PDF'' ''/up/Scan.PDF''
        ''alpha beta'' (Some ''application/pdf'') 10 None None
      = (scan_world ''application/pdf'', Inr True)
   \<and> (\<exists>r. first_row ''d1'' (documents (scan_world ''application/pdf'')) = Some r
          \<and> file_type r = ''application/pdf'')"
proof -
  have s: "save_document table_codec (online_env 5) empty_world ''d1'' ''Scan.PDF''
      ''/up/Scan.PDF'' ''alpha beta'' None 10 None None = (scan_world ''.pdf'', Inr True)"
    by code_simp
  have t: "save_document table_codec (online_env 5) empty_world ''d1'' ''Scan.PDF''
      ''/up/Scan.PDF'' ''alpha beta'' (Some ''application/pdf'') 10 None None
      = (scan_world ''application/pdf'', Inr True)"
    by code_simp
  have l: "lower (suffix ''Scan.PDF'') = ''.pdf''"
    by code_simp
  from file_type_stored [OF s]
  have a: "\<exists>r. first_row ''d1'' (documents (scan_world ''.pdf'')) = Some r
          \<and> file_type r = lower (suffix ''Scan.PDF'')"
    by simp
  from file_type_stored [OF t]
  have b: "\<exists>r. first_row ''d1'' (documents (scan_world ''application/pdf'')) = Some r
          \<and> file_type r = ''application/pdf''"
    by simp
  show ?thesis
    by (intro conjI s a l t b)
qed

text \<open>
  An empty \<open>file_type\<close> is a supplied one, and it is not stored as given: \<open>or\<close> takes
  the suffix of the filename in its place.
\<close>

theorem file_type_empty_counterexample:
  "snd (save_document table_codec (online_env 5) empty_world ''d1'' ''Scan.PDF'' ''/up/Scan.PDF''
          ''alpha beta'' (Some []) 10 None None) = Inr True
   \<and> map file_type (documents (fst (save_document table_codec (online_env 5) empty_world ''d1''
          ''Scan.PDF'' ''/up/Scan.PDF'' ''alpha beta'' (Some []) 10 None None))) = [''.pdf'']
   \<and> map file_type (documents (fst (save_document table_codec (online_env 5) empty_world ''d1''
          ''Scan.PDF'' ''/up/Scan.PDF'' ''alpha beta'' (Some []) 10 None None))) \<noteq> [[]]"
  by code_simp

subsection \<open>Saving, then reading\<close>

lemma get_document_by_id_cached:
  assumes "supabase w \<noteq> None" and "execute_ok e"
  shows "get_document_by_id c e w d = (w, case get_by_id_body c e w d of Inl ex \<Rightarrow> Inr None | Inr r \<Rightarrow> Inr r)"
  using assms
  by (auto simp: get_document_by_id_def get_supabase_client_def split: sum.splits)




subsection \<open>Absent maps\<close>

text \<open>
  Claim C9.  When \<open>summary\<close> or \<open>metadata\<close> is absent, \<open>save_document\<close> stores
  \<open>json.dumps({})\<close> in its column, and a following \<open>get_document_by_id\<close> returns the
  empty map in that field (the library reading \<open>{}\<close> back from what it wrote for it,
  and reading some value back for a map that was given).
\<close>

theorem absent_maps_empty:
  assumes s: "save_document c e w d fn fp tx ft fs sm md = (w1, Inr True)"
    and x: "execute_ok e2"
    and rt: "round_trips c (JObj [])"
    and ls: "sm = None \<or> loadable c (or_empty sm)"
    and lm: "md = None \<or> loadable c (or_empty md)"
  shows "\<exists>r doc. first_row d (documents w1) = Some r
           \<and> (sm = None \<longrightarrow> summary_json r = dumps c (JObj []))
           \<and> (md = None \<longrightarrow> metadata_json r = dumps c (JObj []))
           \<and> get_document_by_id c e2 w1 d = (w1, Inr (Some doc))
           \<and> (sm = None \<longrightarrow> summary doc = JObj [])
           \<and> (md = None \<longrightarrow> metadata doc = JObj [])"
proof -
  from save_document_cases [OF s] obtain sj mj r where
    c: "supabase w1 \<noteq> None"
    and sj: "dumps c (or_empty sm) = Some sj" and mj: "dumps c (or_empty md) = Some mj"
    and r: "documents w1 = upsert r (documents w)" "row_id r = d"
      "summary_json r = Some sj" "metadata_json r = Some mj"
    by auto
  have fr: "first_row d (documents w1) = Some r"
    using r(1,2) first_row_upsert [of r "documents w"] by simp
  have sel: "select_eq_id d (documents w1) = r # tl (select_eq_id d (documents w))"
    using r(1,2) select_upsert_same [of r "documents w"] by simp
  have e0: "or_empty None = JObj []"
    by (simp add: or_empty_def)
  have reload: "\<exists>v. load_json c (Some j) = Inr v \<and> (m = None \<longrightarrow> v = JObj [])"
    if j: "dumps c (or_empty m) = Some j" and l: "m = None \<or> loadable c (or_empty m)"
    for m j
  proof (cases "m = None")
    case True
    then show ?thesis using rt j e0 by (simp add: round_trips_def)
  next
    case False
    then have "loadable c (or_empty m)" using l by blast
    then show ?thesis
      using j False by (cases "load_json c (Some j)") (auto simp: loadable_def)
  qed
  obtain vs where vs: "load_json c (Some sj) = Inr vs" "sm = None \<longrightarrow> vs = JObj []"
    using reload [OF sj ls] by blast
  obtain vm where vm: "load_json c (Some mj) = Inr vm" "md = None \<longrightarrow> vm = JObj []"
    using reload [OF mj lm] by blast
  have "get_by_id_body c e2 w1 d =
      Inr (Some \<lparr>doc_id = row_id r, doc_filename = filename r, doc_file_path = file_path r,
                 doc_upload_date = upload_date r, doc_file_type = file_type r,
                 doc_file_size = file_size r, full_text = ocr_text r,
                 word_count = word_count_of (ocr_text r), title = title_of r,
                 summary = vs, metadata = vm\<rparr>)"
    using x sel vs(1) vm(1) r by (simp add: get_by_id_body_def)
  then show ?thesis
    using get_document_by_id_cached [OF c x, of c d] fr r sj mj vs(2) vm(2) e0 by auto
qed

theorem absent_maps_empty_witness:
  "save_document table_codec (online_env 5) empty_world ''d1'' ''notes.txt'' ''/up/notes.txt''
      ''alpha beta gamma'' None 16 (Some [(''pages'', JInt 2)]) None = (pages_world, Inr True)
   \<and> execute_ok (online_env 6)
   \<and> round_trips table_codec (JObj [])
   \<and> loadable table_codec (or_empty (Some [(''pages'', JInt 2)]))
   \<and> (\<exists>r doc. first_row ''d1'' (documents pages_world) = Some r
          \<and> metadata_json r = Some ''{}''
          \<and> get_document_by_id table_codec (online_env 6) pages_world ''d1''
                 = (pages_world, Inr (Some doc))
          \<and> metadata doc = JObj [])"
proof -
  have s: "save_document table_codec (online_env 5) empty_world ''d1'' ''notes.txt''
      ''/up/notes.txt'' ''alpha beta gamma'' None 16 (Some [(''pages'', JInt 2)]) None
      = (pages_world, Inr True)"
    by code_simp
  have x: "execute_ok (online_env 6)"
    by (simp add: online_env_def)
  have rt: "round_trips table_codec (JObj [])"
    by code_simp
  have ls: "loadable table_codec (or_empty (Some [(''pages'', JInt 2)]))"
    by code_simp
  have d: "dumps table_codec (JObj []) = Some ''{}''"
    by code_simp
  show ?thesis
    using s x rt ls d absent_maps_empty [OF s x rt disjI2 [OF ls] disjI1 [OF refl]] by simp
qed

subsection \<open>Upsert\<close>

lemma save_document_row:
  assumes pk: "primary_key (documents w)"
    and s: "save_document c e w d fn fp tx ft fs sm md = (w1, Inr True)"
  shows "primary_key (documents w1)
         \<and> (\<exists>r. select_eq_id d (documents w1) = [r]
                \<and> row_id r = d \<and> filename r = Some fn \<and> file_path r = fp
                \<and> upload_date r = now e
                \<and> file_type r = (case ft of None \<Rightarrow> lower (suffix fn)
                                 | Some t \<Rightarrow> if t = [] then lower (suffix fn) else t)
                \<and> file_size r = fs \<and> ocr_text r = Some tx
                \<and> summary_json r = dumps c (or_empty sm)
                \<and> metadata_json r = dumps c (or_empty md))
         \<and> (\<forall>d'. d' \<noteq> d \<longrightarrow> select_eq_id d' (documents w1) = select_eq_id d' (documents w))
         \<and> length (documents w1)
             = (if d \<in> row_id ` set (documents w) then length (documents w)
                else Suc (length (documents w)))"
proof -
  from save_document_cases [OF s] obtain r where
    r: "documents w1 = upsert r (documents w)" "row_id r = d" "filename r = Some fn"
      "file_path r = fp" "upload_date r = now e"
      "file_type r = (case ft of None \<Rightarrow> lower (suffix fn)
                      | Some t \<Rightarrow> if t = [] then lower (suffix fn) else t)"
      "file_size r = fs" "ocr_text r = Some tx"
      "summary_json r = dumps c (or_empty sm)" "metadata_json r = dumps c (or_empty md)"
    by auto
  have a: "primary_key (documents w1)"
    using pk r(1) distinct_upsert [of "documents w" r] by (simp add: primary_key_def)
  have b: "select_eq_id d (documents w1) = [r]"
    using pk r(1,2) select_upsert_distinct [of "documents w" r] by (simp add: primary_key_def)
  have c: "select_eq_id d' (documents w1) = select_eq_id d' (documents w)" if "d' \<noteq> d" for d'
    using that r(1,2) select_upsert_other [of d' r "documents w"] by simp
  have l: "length (documents w1)
             = (if d \<in> row_id ` set (documents w) then length (documents w)
                else Suc (length (documents w)))"
    using r(1,2) length_upsert [of r "documents w"] by simp
  show ?thesis using a b c l r by simp
qed

text \<open>
  Claim C6.  On a table with its primary key, a successful \<open>save_document\<close> leaves exactly
  one row under the identifier, holding the fields of the call, whether or not a row
  was there before; a row that was there is replaced, so the table does not grow, and
  the rows under other identifiers are untouched.  A second successful call with the
  same arguments again leaves exactly one such row and the same number of rows (and
  the very same table if the clock has not moved).
\<close>

theorem save_document_upsert:
  assumes pk: "primary_key (documents w)"
    and s1: "save_document c e1 w d fn fp tx ft fs sm md = (w1, Inr True)"
  shows "(\<exists>r. select_eq_id d (documents w1) = [r]
              \<and> row_id r = d \<and> filename r = Some fn \<and> file_path r = fp
              \<and> upload_date r = now e1
              \<and> file_type r = (case ft of None \<Rightarrow> lower (suffix fn)
                               | Some t \<Rightarrow> if t = [] then lower (suffix fn) else t)
              \<and> file_size r = fs \<and> ocr_text r = Some tx
              \<and> summary_json r = dumps c (or_empty sm)
              \<and> metadata_json r = dumps c (or_empty md))
         \<and> primary_key (documents w1)
         \<and> (d \<in> row_id ` set (documents w) \<longrightarrow> length (documents w1) = length (documents w))
         \<and> (\<forall>d'. d' \<noteq> d \<longrightarrow> select_eq_id d' (documents w1) = select_eq_id d' (documents w))
         \<and> (\<forall>e2 w2. save_document c e2 w1 d fn fp tx ft fs sm md = (w2, Inr True) \<longrightarrow>
               (\<exists>r. select_eq_id d (documents w2) = [r]
                    \<and> row_id r = d \<and> filename r = Some fn \<and> file_path r = fp
                    \<and> upload_date r = now e2
                    \<and> file_type r = (case ft of None \<Rightarrow> lower (suffix fn)
                                     | Some t \<Rightarrow> if t = [] then lower (suffix fn) else t)
                    \<and> file_size r = fs \<and> ocr_text r = Some tx
                    \<and> summary_json r = dumps c (or_empty sm)
                    \<and> metadata_json r = dumps c (or_empty md))
             \<and> length (documents w2) = length (documents w1)
             \<and> (\<forall>d'. d' \<noteq> d \<longrightarrow>
                    select_eq_id d' (documents w2) = select_eq_id d' (documents w1))
             \<and> (now e2 = now e1 \<longrightarrow> documents w2 = documents w1))"
proof -
  note first = save_document_row [OF pk s1]
  then have pk1: "primary_key (documents w1)" by blast
  from first obtain r1 where r1: "select_eq_id d (documents w1) = [r1]" by blast
  then have "r1 \<in> set (select_eq_id d (documents w1))" by simp
  then have mem: "d \<in> row_id ` set (documents w1)"
    by (auto simp: select_eq_id_def)
  have second: "(\<exists>r. select_eq_id d (documents w2) = [r]
                    \<and> row_id r = d \<and> filename r = Some fn \<and> file_path r = fp
                    \<and> upload_date r = now e2
                    \<and> file_type r = (case ft of None \<Rightarrow> lower (suffix fn)
                                     | Some t \<Rightarrow> if t = [] then lower (suffix fn) else t)
                    \<and> file_size r = fs \<and> ocr_text r = Some tx
                    \<and> summary_json r = dumps c (or_empty sm)
                    \<and> metadata_json r = dumps c (or_empty md))
             \<and> length (documents w2) = length (documents w1)
             \<and> (\<forall>d'. d' \<noteq> d \<longrightarrow>
                    select_eq_id d' (documents w2) = select_eq_id d' (documents w1))
             \<and> (now e2 = now e1 \<longrightarrow> documents w2 = documents w1)"
    if s2: "save_document c e2 w1 d fn fp tx ft fs sm md = (w2, Inr True)" for e2 w2
  proof -
    note again = save_document_row [OF pk1 s2]
    have same: "documents w2 = documents w1" if t: "now e2 = now e1"
    proof -
      from save_document_cases [OF s1] obtain r where
        d1: "documents w1 = upsert r (documents w)"
        and r: "r = \<lparr>row_id = d, filename = Some fn, file_path = fp, upload_date = now e1,
              file_type = (case ft of None \<Rightarrow> lower (suffix fn)
                           | Some t \<Rightarrow> if t = [] then lower (suffix fn) else t),
              file_size = fs, ocr_text = Some tx, summary_json = dumps c (or_empty sm),
              metadata_json = dumps c (or_empty md)\<rparr>"
        by auto
      from save_document_cases [OF s2] t r have d2: "documents w2 = upsert r (documents w1)"
        by auto
      have idem: "upsert x (upsert x rows) = upsert x rows" for x :: "'a row" and rows
        by (induction rows) auto
      show ?thesis by (simp add: d2 d1 idem)
    qed
    show ?thesis using again mem same by simp
  qed
  show ?thesis using first second by simp
qed


theorem save_document_upsert_witness:
  "primary_key (documents empty_world)
   \<and> save_document table_codec (online_env 5) empty_world ''d1'' ''notes.txt'' ''/up/notes.txt''
        ''alpha beta gamma'' None 16 (Some [(''pages'', JInt 2)]) None = (pages_world, Inr True)
   \<and> save_document table_codec (online_env 9) pages_world ''d1'' ''notes.txt'' ''/up/notes.txt''
        ''alpha beta gamma'' None 16 (Some [(''pages'', JInt 2)]) None
      = (pages_world_again, Inr True)
   \<and> (\<exists>r. select_eq_id ''d1'' (documents pages_world_again) = [r]
          \<and> filename r = Some ''notes.txt'' \<and> ocr_text r = Some ''alpha beta gamma''
          \<and> upload_date r = 9)
   \<and> length (documents pages_world_again) = length (documents pages_world)"
proof -
  have pk: "primary_key (documents empty_world)"
    by (simp add: primary_key_def empty_world_def)
  have s1: "save_document table_codec (online_env 5) empty_world ''d1'' ''notes.txt''
      ''/up/notes.txt'' ''alpha beta gamma'' None 16 (Some [(''pages'', JInt 2)]) None
      = (pages_world, Inr True)"
    by code_simp
  have s2: "save_document table_codec (online_env 9) pages_world ''d1'' ''notes.txt''
      ''/up/notes.txt'' ''alpha beta gamma'' None 16 (Some [(''pages'', JInt 2)]) None
      = (pages_world_again, Inr True)"
    by code_simp
  have n: "now (online_env 9) = 9"
    by (simp add: online_env_def)
  from save_document_upsert [OF pk s1] s2 n
  have "(\<exists>r. select_eq_id ''d1'' (documents pages_world_again) = [r]
          \<and> filename r = Some ''notes.txt'' \<and> ocr_text r = Some ''alpha beta gamma''
          \<and> upload_date r = 9)
   \<and> length (documents pages_world_again) = length (documents pages_world)"
    by fastforce
  with pk s1 s2 show ?thesis by simp
qed

subsection \<open>Listing\<close>






subsection \<open>Rounding\<close>



















subsection \<open>The scan of \<open>find_similar_documents\<close>\<close>







subsection \<open>Short texts\<close>



subsection \<open>Ranking\<close>



end
